theory Spec2Isabelle
  imports Complex_Main
begin

section \<open>Road surface assessment: severity, recommendation, report\<close>

text \<open>
  A shallow embedding of \<^verbatim>\<open>app.py\<close>: the three helper functions
  (\<^verbatim>\<open>assess_severity\<close>, \<^verbatim>\<open>recommendation\<close>,
  \<^verbatim>\<open>reconstruction_steps\<close>), the display loop over the detected boxes and
  the assembly of the report text. Strings are byte strings (UTF-8), a Python
  exception is a value of \<open>py_error\<close>, the calls into Streamlit are a log of
  \<open>ui_call\<close> values in the order the script makes them.
\<close>

subsection \<open>Python floats\<close>

text \<open>
  A Python float is an IEEE binary64 value: a finite number, an infinity or NaN. A
  finite float is modelled by the real number it denotes, so the finite floats are a
  subset of \<open>Finite\<close>; every theorem about all \<open>pyfloat\<close> values holds for all
  floats. An ordered comparison with NaN is false, as in Python.
\<close>

datatype pyfloat = Finite real | PosInf | NegInf | NaN

fun float_lt :: "pyfloat \<Rightarrow> pyfloat \<Rightarrow> bool" where
  "float_lt (Finite x) (Finite y) = (x < y)"
| "float_lt (Finite x) PosInf = True"
| "float_lt NegInf (Finite y) = True"
| "float_lt NegInf PosInf = True"
| "float_lt _ _ = False"

fun float_le :: "pyfloat \<Rightarrow> pyfloat \<Rightarrow> bool" where
  "float_le (Finite x) (Finite y) = (x \<le> y)"
| "float_le (Finite x) PosInf = True"
| "float_le NegInf (Finite y) = True"
| "float_le NegInf PosInf = True"
| "float_le NegInf NegInf = True"
| "float_le PosInf PosInf = True"
| "float_le _ _ = False"

text \<open>
  The float literals of the source. A decimal literal denotes the binary64 value
  nearest to it: \<^verbatim>\<open>0.40\<close> is \<open>0x1.999999999999ap-2\<close>, \<^verbatim>\<open>0.70\<close> is
  \<open>0x1.6666666666666p-1\<close>, \<^verbatim>\<open>0.3\<close> is \<open>0x1.3333333333333p-2\<close>,
  \<^verbatim>\<open>0.6\<close> is \<open>0x1.3333333333333p-1\<close> and \<^verbatim>\<open>0.9\<close> is
  \<open>0x1.ccccccccccccdp-1\<close>. The same value is what a caller passes when it writes
  the literal \<^verbatim>\<open>0.40\<close> or \<^verbatim>\<open>0.70\<close> as the confidence.
\<close>

definition lit_0_40 :: real where
  "lit_0_40 = 3602879701896397 / 2 ^ 53"

definition lit_0_70 :: real where
  "lit_0_70 = 3152519739159347 / 2 ^ 52"

definition lit_0_3 :: real where
  "lit_0_3 = 5404319552844595 / 2 ^ 54"

definition lit_0_6 :: real where
  "lit_0_6 = 5404319552844595 / 2 ^ 53"

definition lit_0_9 :: real where
  "lit_0_9 = 8106479329266893 / 2 ^ 53"

text \<open>
  The finite binary64 values: a significand of at most 53 bits times a power of two
  with an exponent from \<open>-1074\<close> to \<open>971\<close>. A confidence
  \<^verbatim>\<open>float(box.conf[0])\<close> is one of them.
\<close>

definition binary64 :: "real set" where
  "binary64 =
     {x. \<exists>(m::int) (n::nat). \<bar>m\<bar> < 2 ^ 53 \<and>
           ((n \<le> 971 \<and> x = of_int m * 2 ^ n) \<or> (n \<le> 1074 \<and> x = of_int m / 2 ^ n))}"

subsection \<open>The helper functions\<close>

text \<open>
  \<^verbatim>\<open>assess_severity(conf)\<close> returns the tuple (severity, css, score, explanation).
\<close>

type_synonym assessment = "string \<times> string \<times> pyfloat \<times> string"

definition assess_severity :: "pyfloat \<Rightarrow> assessment" where
  "assess_severity conf =
     (if float_lt conf (Finite lit_0_40) then
        (''Low'', ''low'', Finite lit_0_3,
         ''Minor surface damage with no immediate safety risk.'')
      else if float_lt conf (Finite lit_0_70) then
        (''Moderate'', ''moderate'', Finite lit_0_6,
         ''Damage may worsen and affect ride quality.'')
      else
        (''Severe'', ''severe'', Finite lit_0_9,
         ''Critical damage posing serious safety risks.''))"

text \<open>
  A dict literal is an association list in the order of the source (no key occurs
  twice in the tables below); \<^verbatim>\<open>d.get(k, default)\<close> is \<open>dict_get\<close> and
  \<^verbatim>\<open>d[k]\<close>, which raises KeyError on a missing key, is \<open>dict_index\<close>.
\<close>

datatype py_error = KeyError string

definition dict_get :: "('k \<times> 'v) list \<Rightarrow> 'k \<Rightarrow> 'v \<Rightarrow> 'v" where
  "dict_get d k dflt = (case map_of d k of None \<Rightarrow> dflt | Some v \<Rightarrow> v)"

definition dict_index :: "(string \<times> 'v) list \<Rightarrow> string \<Rightarrow> py_error + 'v" where
  "dict_index d k = (case map_of d k of None \<Rightarrow> Inl (KeyError k) | Some v \<Rightarrow> Inr v)"

definition actions :: "(string \<times> (string \<times> string) list) list" where
  "actions =
     [(''crack'',
         [(''Low'', ''Seal cracks to prevent water penetration.''),
          (''Moderate'', ''Crack filling followed by surface overlay.''),
          (''Severe'', ''Immediate resurfacing required.'')]),
      (''pothole'',
         [(''Low'', ''Temporary patch repair recommended.''),
          (''Moderate'', ''Permanent patch repair with compaction.''),
          (''Severe'', ''Urgent full-depth reconstruction required.'')]),
      (''manhole'',
         [(''Low'', ''Routine inspection advised.''),
          (''Moderate'', ''Level adjustment and reinforcement needed.''),
          (''Severe'', ''Immediate structural correction required.'')])]"

definition recommendation :: "string \<Rightarrow> string \<Rightarrow> string" where
  "recommendation label severity =
     dict_get (dict_get actions label []) severity ''Standard maintenance recommended.''"

text \<open>
  The three triple-quoted texts of \<^verbatim>\<open>reconstruction_steps\<close>, line by line: each
  starts with a newline, and every line of it ends with two spaces and a newline.
\<close>

definition plans :: "(string \<times> string) list" where
  "plans =
     [(''Low'',
         ''\<newline>'' @
         ''**Reconstruction Process (Low Severity)**  \<newline>'' @
         ''1. Visual inspection  \<newline>'' @
         ''2. Cleaning debris  \<newline>'' @
         ''3. Crack sealing / minor patching  \<newline>'' @
         ''4. Periodic monitoring  \<newline>''),
      (''Moderate'',
         ''\<newline>'' @
         ''**Reconstruction Process (Moderate Severity)**  \<newline>'' @
         ''1. Detailed site inspection  \<newline>'' @
         ''2. Marking damaged zones  \<newline>'' @
         ''3. Crack filling / patch repair  \<newline>'' @
         ''4. Surface overlay  \<newline>'' @
         ''5. Compaction and leveling  \<newline>''),
      (''Severe'',
         ''\<newline>'' @
         ''**Reconstruction Process (Severe Severity)**  \<newline>'' @
         ''1. Traffic diversion and safety barricades  \<newline>'' @
         ''2. Removal of damaged layers  \<newline>'' @
         ''3. Structural base repair  \<newline>'' @
         ''4. Full resurfacing  \<newline>'' @
         ''5. Quality and load inspection  \<newline>'')]"

definition reconstruction_steps :: "string \<Rightarrow> py_error + string" where
  "reconstruction_steps severity = dict_index plans severity"

subsection \<open>The display loop and the report\<close>

text \<open>
  \<^verbatim>\<open>str(n)\<close> of a non-negative integer, as the f-strings print \<^verbatim>\<open>i+1\<close>.
\<close>

definition digit_char :: "nat \<Rightarrow> char" where
  "digit_char d = ''0123456789'' ! d"

function str_of_nat :: "nat \<Rightarrow> string" where
  "str_of_nat n =
     (if n < 10 then [digit_char n]
      else str_of_nat (n div 10) @ [digit_char (n mod 10)])"
  by pat_completeness auto
termination
  by (relation "measure (\<lambda>n. n)") auto

declare str_of_nat.simps [simp del]

text \<open>
  What the script takes from outside: \<^verbatim>\<open>str.upper\<close>, the format
  \<^verbatim>\<open>{conf:.2f}\<close> and \<^verbatim>\<open>str(datetime.now())\<close> at the moment the report is
  assembled. A detection is what lines 186 to 188 read from a box: the label
  \<^verbatim>\<open>model.names[int(box.cls[0])]\<close> and the confidence
  \<^verbatim>\<open>float(box.conf[0])\<close>.
\<close>

record py_runtime =
  str_upper :: "string \<Rightarrow> string"
  format_2f :: "pyfloat \<Rightarrow> string"
  datetime_now :: string

record detection =
  box_label :: string
  box_conf :: pyfloat

datatype ui_call =
    Markdown string
  | Write string
  | Progress pyfloat
  | Expander string "ui_call list"
  | Success string

definition issue_text :: "py_runtime \<Rightarrow> string \<Rightarrow> string \<Rightarrow> string \<Rightarrow> string \<Rightarrow> string" where
  "issue_text rt label severity explanation action =
     str_upper rt label @ '' | Severity: '' @ severity @ ''\<newline>'' @
     ''Condition: '' @ explanation @ ''\<newline>'' @
     ''Action: '' @ action"

text \<open>The text \<^verbatim>\<open>Damage {i+1}\<close> that both f-strings of the loop body hold.\<close>

definition damage_label :: "nat \<Rightarrow> string" where
  "damage_label i = ''Damage '' @ str_of_nat (i + 1)"

definition damage_html ::
  "py_runtime \<Rightarrow> nat \<Rightarrow> string \<Rightarrow> pyfloat \<Rightarrow> string \<Rightarrow> string \<Rightarrow> string \<Rightarrow> string \<Rightarrow> string"
where
  \<open>damage_html rt i label conf css severity explanation action =
     ''\<newline>'' @
     ''            <div class="report-box">\<newline>'' @
     ''            <b>'' @ damage_label i @ ''</b><br>\<newline>'' @
     ''            <b>Type:</b> '' @ str_upper rt label @ ''<br>\<newline>'' @
     ''            <b>Confidence:</b> '' @ format_2f rt conf @ ''<br>\<newline>'' @
     ''            <b>Severity:</b> <span class="'' @ css @ ''">'' @ severity @ ''</span><br>\<newline>'' @
     ''            <b>Condition:</b> '' @ explanation @ ''<br>\<newline>'' @
     ''            <b>Recommended Action:</b> '' @ action @ ''\<newline>'' @
     ''            </div>\<newline>'' @
     ''            ''\<close>

text \<open>
  The expander's title starts with U+1F6E0 and has U+2013 before the label, here in
  UTF-8.
\<close>

definition expander_title :: "nat \<Rightarrow> string" where
  "expander_title i =
     [CHR 0xF0, CHR 0x9F, CHR 0x9B, CHR 0xA0] @ '' Reconstruction Details '' @
     [CHR 0xE2, CHR 0x80, CHR 0x93] @ '' '' @ damage_label i"

text \<open>
  The loop \<^verbatim>\<open>for i, box in enumerate(boxes)\<close>, with the list \<^verbatim>\<open>issues\<close> and
  the calls made so far as its state. The KeyError of \<^verbatim>\<open>reconstruction_steps\<close>
  is raised inside the expander, after the three calls before it, and ends the run.
\<close>

fun display_loop ::
  "py_runtime \<Rightarrow> nat \<Rightarrow> detection list \<Rightarrow> string list \<Rightarrow> ui_call list
     \<Rightarrow> py_error + (string list \<times> ui_call list)"
where
  "display_loop rt i [] issues ui = Inr (issues, ui)"
| "display_loop rt i (box # boxes) issues ui =
     (let label = box_label box;
          conf = box_conf box;
          (severity, css, score, explanation) = assess_severity conf;
          action = recommendation label severity;
          issues' = issues @ [issue_text rt label severity explanation action];
          ui' = ui @
            [Markdown (damage_html rt i label conf css severity explanation action),
             Write ''**Severity Level**'',
             Progress score]
      in case reconstruction_steps severity of
           Inl e \<Rightarrow> Inl e
         | Inr steps \<Rightarrow>
             display_loop rt (i + 1) boxes issues'
               (ui' @ [Expander (expander_title i) [Markdown steps]]))"

text \<open>\<^verbatim>\<open>sep.join(xs)\<close>.\<close>

fun str_join :: "string \<Rightarrow> string list \<Rightarrow> string" where
  "str_join sep [] = []"
| "str_join sep [x] = x"
| "str_join sep (x # y # ys) = x @ sep @ str_join sep (y # ys)"

definition report_text :: "py_runtime \<Rightarrow> string list \<Rightarrow> string" where
  "report_text rt issues =
     (''\<newline>'' @
      ''ROAD CONDITION ANALYSIS REPORT\<newline>'' @
      ''------------------------------\<newline>'' @
      ''Date & Time: '' @ datetime_now rt @ ''\<newline>'' @
      ''\<newline>'' @
      ''Detected Issues:\<newline>'' @
      ''----------------\<newline>'') @ str_join ''\<newline>\<newline>'' issues"

text \<open>
  Lines 181 to 227: \<^verbatim>\<open>boxes\<close> may be \<^verbatim>\<open>None\<close>; the result is the calls
  made and the report text stored in the session state.
\<close>

text \<open>
  A runtime for the examples. \<open>ascii_upper\<close> is \<^verbatim>\<open>str.upper\<close> on ASCII
  text. \<open>fixed2\<close> is the format \<^verbatim>\<open>.2f\<close>: the exact value of the float,
  rounded to two decimals with ties to even (it prints the float \<^verbatim>\<open>-0.0\<close>,
  which \<open>pyfloat\<close> does not tell from \<^verbatim>\<open>0.0\<close>, without its sign).
\<close>

definition ascii_upper :: "string \<Rightarrow> string" where
  "ascii_upper s =
     map (\<lambda>c. case map_of (zip ''abcdefghijklmnopqrstuvwxyz'' ''ABCDEFGHIJKLMNOPQRSTUVWXYZ'') c of
                None \<Rightarrow> c | Some u \<Rightarrow> u) s"

definition round_half_even :: "real \<Rightarrow> nat" where
  "round_half_even q =
     (let f = nat \<lfloor>q\<rfloor>; r = q - of_int \<lfloor>q\<rfloor>
      in if r < 1 / 2 then f else if 1 / 2 < r then f + 1 else if even f then f else f + 1)"

definition fixed2 :: "pyfloat \<Rightarrow> string" where
  "fixed2 c =
     (case c of
        NaN \<Rightarrow> ''nan''
      | PosInf \<Rightarrow> ''inf''
      | NegInf \<Rightarrow> ''-inf''
      | Finite x \<Rightarrow>
          (let n = round_half_even (\<bar>x\<bar> * 100)
           in (if x < 0 then ''-'' else []) @ str_of_nat (n div 100) @ ''.'' @
              [digit_char (n div 10 mod 10), digit_char (n mod 10)]))"

definition example_runtime :: py_runtime where
  "example_runtime =
     \<lparr>str_upper = ascii_upper, format_2f = fixed2,
      datetime_now = ''2024-05-01 10:30:00.123456''\<rparr>"

definition display_results ::
  "py_runtime \<Rightarrow> detection list option \<Rightarrow> py_error + (ui_call list \<times> string)"
where
  "display_results rt boxes =
     (case (if boxes \<noteq> None \<and> 0 < length (the boxes)
            then display_loop rt 0 (the boxes) [] []
            else Inr ([], [Success ([CHR 0xE2, CHR 0x9C, CHR 0x85] @ '' No road damage detected.'')]))
      of Inl e \<Rightarrow> Inl e
       | Inr (issues, ui) \<Rightarrow> Inr (ui, report_text rt issues))"

text \<open>
  What the loop body does for the box at position \<open>k\<close>, as a predicate on the
  text appended to \<^verbatim>\<open>issues\<close> and on the calls made in that iteration: the
  report-box Markdown, the caption, the progress bar and the expander with the
  reconstruction text, in this order.
\<close>

definition rendered_block ::
  "py_runtime \<Rightarrow> nat \<Rightarrow> detection \<Rightarrow> string \<Rightarrow> ui_call list \<Rightarrow> bool"
where
  "rendered_block rt k box issue calls =
     (case assess_severity (box_conf box) of
        (severity, css, score, explanation) \<Rightarrow>
          (case reconstruction_steps severity of
             Inl e \<Rightarrow> False
           | Inr steps \<Rightarrow>
               issue =
                 issue_text rt (box_label box) severity explanation
                   (recommendation (box_label box) severity) \<and>
               calls =
                 [Markdown
                    (damage_html rt k (box_label box) (box_conf box) css severity explanation
                       (recommendation (box_label box) severity)),
                  Write ''**Severity Level**'',
                  Progress score,
                  Expander (expander_title k) [Markdown steps]]))"

text \<open>
  Reading a decimal numeral: \<open>decimal_numeral s\<close> is the number that the text
  \<open>s\<close> denotes when \<open>s\<close> is a non-empty sequence of the digits
  \<^verbatim>\<open>0\<close> to \<^verbatim>\<open>9\<close> without a leading zero (the text \<^verbatim>\<open>0\<close> itself apart),
  and \<open>None\<close> for every other text.
\<close>

definition decimal_digit :: "char \<Rightarrow> nat option" where
  "decimal_digit c =
     map_of [(CHR ''0'', 0), (CHR ''1'', 1), (CHR ''2'', 2), (CHR ''3'', 3), (CHR ''4'', 4),
             (CHR ''5'', 5), (CHR ''6'', 6), (CHR ''7'', 7), (CHR ''8'', 8), (CHR ''9'', 9)] c"

fun read_decimal :: "nat \<Rightarrow> string \<Rightarrow> nat option" where
  "read_decimal a [] = Some a"
| "read_decimal a (c # cs) =
     (case decimal_digit c of None \<Rightarrow> None | Some d \<Rightarrow> read_decimal (10 * a + d) cs)"

definition decimal_numeral :: "string \<Rightarrow> nat option" where
  "decimal_numeral s =
     (if s = [] \<or> (hd s = CHR ''0'' \<and> s \<noteq> ''0'') then None else read_decimal 0 s)"

subsection \<open>The reconstruction plan as an ordered list of steps\<close>

text \<open>
  The specification's view of a reconstruction plan: an ordered sequence of steps.
  \<open>plan_markdown\<close> is the Markdown text of such a sequence for a tier: a newline,
  the bold title line, then one line per step, numbered from 1 in the order of the
  list, every line ending with two spaces and a newline. It is compared below with
  the texts that \<open>reconstruction_steps\<close> returns.
\<close>

definition plan_markdown :: "string \<Rightarrow> string list \<Rightarrow> string" where
  "plan_markdown severity steps =
     ''\<newline>**Reconstruction Process ('' @ severity @ '' Severity)**  \<newline>'' @
     concat (map (\<lambda>(k, step). str_of_nat (k + 1) @ ''. '' @ step @ ''  \<newline>'')
                 (enumerate 0 steps))"


section \<open>Properties\<close>

subsection \<open>The float literals\<close>

text \<open>
  The thresholds are ordered inside the unit interval, and each literal is within
  half a unit in the last place of the decimal it is written as.
\<close>

lemma lit_order: "0 < lit_0_40" "lit_0_40 < lit_0_70" "lit_0_70 < 1"
  by (simp_all add: lit_0_40_def lit_0_70_def)

lemma lit_nearest:
  "\<bar>lit_0_40 - 2 / 5\<bar> \<le> 1 / 2 ^ 55" "\<bar>lit_0_70 - 7 / 10\<bar> \<le> 1 / 2 ^ 54"
  "\<bar>lit_0_3 - 3 / 10\<bar> \<le> 1 / 2 ^ 56" "\<bar>lit_0_6 - 6 / 10\<bar> \<le> 1 / 2 ^ 55"
  "\<bar>lit_0_9 - 9 / 10\<bar> \<le> 1 / 2 ^ 54"
  by (simp_all add: lit_0_40_def lit_0_70_def lit_0_3_def lit_0_6_def lit_0_9_def)

text \<open>A float between \<^verbatim>\<open>0.0\<close> and \<^verbatim>\<open>1.0\<close> is a finite one.\<close>

lemma unit_interval_Finite:
  "float_le (Finite 0) c \<and> float_le c (Finite 1) \<longleftrightarrow> (\<exists>x. c = Finite x \<and> 0 \<le> x \<and> x \<le> 1)"
  by (cases c) auto

subsection \<open>Severity classifier\<close>

text \<open>
  Claim C1. For every confidence \<open>c\<close>, \<^verbatim>\<open>assess_severity(c)\<close> is the tuple fixed by
  the thresholds: \<open>c < 0.40\<close> gives the Low tuple with score \<open>0.3\<close>,
  \<open>0.40 \<le> c < 0.70\<close> the Moderate tuple with score \<open>0.6\<close>, and \<open>0.70 \<le> c\<close> the
  Severe tuple with score \<open>0.9\<close>, where the thresholds and scores are the float
  literals of the source and the comparisons are those of Python floats. The
  boundary inputs \<open>0.40\<close>, \<open>0.70\<close>, \<open>0.0\<close> and \<open>1.0\<close> are instances: they
  get Moderate, Severe, Low and Severe.
\<close>

theorem assess_severity_thresholds:
  "(float_lt c (Finite lit_0_40) \<longrightarrow>
      assess_severity c =
        (''Low'', ''low'', Finite lit_0_3,
         ''Minor surface damage with no immediate safety risk.'')) \<and>
   (float_le (Finite lit_0_40) c \<and> float_lt c (Finite lit_0_70) \<longrightarrow>
      assess_severity c =
        (''Moderate'', ''moderate'', Finite lit_0_6,
         ''Damage may worsen and affect ride quality.'')) \<and>
   (float_le (Finite lit_0_70) c \<longrightarrow>
      assess_severity c =
        (''Severe'', ''severe'', Finite lit_0_9,
         ''Critical damage posing serious safety risks.''))"
  using lit_order(2) by (cases c) (auto simp: assess_severity_def)

theorem assess_severity_boundaries:
  "assess_severity (Finite lit_0_40) =
     (''Moderate'', ''moderate'', Finite lit_0_6,
      ''Damage may worsen and affect ride quality.'') \<and>
   assess_severity (Finite lit_0_70) =
     (''Severe'', ''severe'', Finite lit_0_9,
      ''Critical damage posing serious safety risks.'') \<and>
   assess_severity (Finite 0) =
     (''Low'', ''low'', Finite lit_0_3,
      ''Minor surface damage with no immediate safety risk.'') \<and>
   assess_severity (Finite 1) =
     (''Severe'', ''severe'', Finite lit_0_9,
      ''Critical damage posing serious safety risks.'')"
proof -
  have m: "float_le (Finite lit_0_40) (Finite lit_0_40) \<and> float_lt (Finite lit_0_40) (Finite lit_0_70)"
    using lit_order(2) by simp
  have s: "float_le (Finite lit_0_70) (Finite lit_0_70)"
    by simp
  have l: "float_lt (Finite 0) (Finite lit_0_40)"
    using lit_order(1) by simp
  have t: "float_le (Finite lit_0_70) (Finite 1)"
    using lit_order(3) by simp
  show ?thesis
    using assess_severity_thresholds [of "Finite lit_0_40"] m
      assess_severity_thresholds [of "Finite lit_0_70"] s
      assess_severity_thresholds [of "Finite 0"] l
      assess_severity_thresholds [of "Finite 1"] t
    by blast
qed

text \<open>
  Claim C10. \<^verbatim>\<open>assess_severity\<close> is defined on every float: a confidence below
  \<open>0\<close> (also minus infinity) gets the Low tuple, a confidence above \<open>1\<close> (also
  plus infinity) the Severe tuple, and the result is always one of the three
  tuples: no input is clamped, rejected or raises.
\<close>

theorem assess_severity_out_of_range:
  "(float_lt c (Finite 0) \<longrightarrow>
      assess_severity c =
        (''Low'', ''low'', Finite lit_0_3,
         ''Minor surface damage with no immediate safety risk.'')) \<and>
   (float_lt (Finite 1) c \<longrightarrow>
      assess_severity c =
        (''Severe'', ''severe'', Finite lit_0_9,
         ''Critical damage posing serious safety risks.'')) \<and>
   assess_severity c \<in>
     {(''Low'', ''low'', Finite lit_0_3,
       ''Minor surface damage with no immediate safety risk.''),
      (''Moderate'', ''moderate'', Finite lit_0_6,
       ''Damage may worsen and affect ride quality.''),
      (''Severe'', ''severe'', Finite lit_0_9,
       ''Critical damage posing serious safety risks.'')}"
  using lit_order by (cases c) (auto simp: assess_severity_def)

theorem assess_severity_out_of_range_witness:
  "assess_severity (Finite (- 1)) =
     (''Low'', ''low'', Finite lit_0_3,
      ''Minor surface damage with no immediate safety risk.'') \<and>
   assess_severity NegInf =
     (''Low'', ''low'', Finite lit_0_3,
      ''Minor surface damage with no immediate safety risk.'') \<and>
   assess_severity (Finite 2) =
     (''Severe'', ''severe'', Finite lit_0_9,
      ''Critical damage posing serious safety risks.'') \<and>
   assess_severity PosInf =
     (''Severe'', ''severe'', Finite lit_0_9,
      ''Critical damage posing serious safety risks.'')"
proof -
  have a: "float_lt (Finite (- 1)) (Finite 0)" "float_lt NegInf (Finite 0)"
    by simp_all
  have b: "float_lt (Finite 1) (Finite 2)" "float_lt (Finite 1) PosInf"
    by simp_all
  show ?thesis
    using assess_severity_out_of_range [of "Finite (- 1)"] a(1)
      assess_severity_out_of_range [of NegInf] a(2)
      assess_severity_out_of_range [of "Finite 2"] b(1)
      assess_severity_out_of_range [of PosInf] b(2)
    by blast
qed

text \<open>NaN compares false with both thresholds and falls to the last branch.\<close>

lemma assess_severity_NaN:
  "assess_severity NaN =
     (''Severe'', ''severe'', Finite lit_0_9,
      ''Critical damage posing serious safety risks.'')"
  by (simp add: assess_severity_def)

subsection \<open>The tiers on the unit interval\<close>

lemma tier_Finite:
  "fst (assess_severity (Finite x)) =
     (if x < lit_0_40 then ''Low'' else if x < lit_0_70 then ''Moderate'' else ''Severe'')"
  by (simp add: assess_severity_def)

text \<open>
  Between \<^verbatim>\<open>1.0\<close> and the next binary64 value \<open>1 + 2\<^sup>-\<^sup>5\<^sup>2\<close> there is no
  binary64 value.
\<close>

lemma int_gap:
  assumes "1 < real_of_int k"
  shows "2 \<le> real_of_int k"
proof -
  have "real_of_int 1 < real_of_int k" using assms by simp
  then have "1 < k" by (simp only: of_int_less_iff)
  then have "2 \<le> k" by simp
  then have "real_of_int 2 \<le> real_of_int k" by (simp only: of_int_le_iff)
  then show ?thesis by simp
qed

lemma binary64_gap:
  assumes "x \<in> binary64" and "1 < x"
  shows "1 + 1 / 2 ^ 52 \<le> x"
proof -
  from assms(1) obtain m :: int and n :: nat where m: "\<bar>m\<bar> < 2 ^ 53"
    and c: "(n \<le> 971 \<and> x = of_int m * 2 ^ n) \<or> (n \<le> 1074 \<and> x = of_int m / 2 ^ n)"
    unfolding binary64_def by blast
  from c show ?thesis
  proof
    assume "n \<le> 971 \<and> x = of_int m * 2 ^ n"
    then have "x = real_of_int (m * 2 ^ n)" by simp
    then have "2 \<le> x" using assms(2) int_gap by metis
    then show ?thesis by simp
  next
    assume d: "n \<le> 1074 \<and> x = of_int m / 2 ^ n"
    show ?thesis
    proof (cases "n \<le> 52")
      case True
      have "x * 2 ^ 52 = of_int m * (2 ^ 52 / 2 ^ n)"
        using d by simp
      also have "(2::real) ^ 52 / 2 ^ n = 2 ^ (52 - n)"
        using True by (simp add: power_diff)
      finally have e: "x * 2 ^ 52 = real_of_int (m * 2 ^ (52 - n))"
        by simp
      have "real_of_int (2 ^ 52) < x * 2 ^ 52"
        using assms(2) by simp
      then have "real_of_int (2 ^ 52) < real_of_int (m * 2 ^ (52 - n))"
        unfolding e .
      then have "(2::int) ^ 52 < m * 2 ^ (52 - n)"
        by (simp only: of_int_less_iff)
      then have "(2::int) ^ 52 + 1 \<le> m * 2 ^ (52 - n)"
        by linarith
      then have "real_of_int (2 ^ 52 + 1) \<le> real_of_int (m * 2 ^ (52 - n))"
        by (simp only: of_int_le_iff)
      then have "real_of_int (2 ^ 52 + 1) \<le> x * 2 ^ 52"
        unfolding e .
      then show ?thesis
        by (simp add: field_simps)
    next
      case False
      then have "53 \<le> n" by simp
      then have "(2::real) ^ 53 \<le> 2 ^ n"
        by (intro power_increasing) simp_all
      moreover have "real_of_int m < 2 ^ 53"
      proof -
        have "m < 2 ^ 53" using m by linarith
        then have "real_of_int m < real_of_int (2 ^ 53)" by (simp only: of_int_less_iff)
        then show ?thesis by simp
      qed
      ultimately have "real_of_int m < 2 ^ n"
        by linarith
      then have "real_of_int m / 2 ^ n < 2 ^ n / 2 ^ n"
        by (intro divide_strict_right_mono) simp_all
      then have "x < 1"
        using d by simp
      then show ?thesis using assms(2) by simp
    qed
  qed
qed

text \<open>The end points of the three intervals are binary64 values.\<close>

lemma binary64_members:
  "0 \<in> binary64" "1 \<in> binary64" "lit_0_40 \<in> binary64" "lit_0_70 \<in> binary64"
  "1 + 1 / 2 ^ 52 \<in> binary64"
proof -
  show "0 \<in> binary64"
    unfolding binary64_def mem_Collect_eq
    by (rule exI [of _ 0], rule exI [of _ 0], simp)
  show "1 \<in> binary64"
    unfolding binary64_def mem_Collect_eq
    by (rule exI [of _ 1], rule exI [of _ 0], simp)
  show "lit_0_40 \<in> binary64"
    unfolding binary64_def lit_0_40_def mem_Collect_eq
    by (rule exI [of _ 3602879701896397], rule exI [of _ 53], simp)
  show "lit_0_70 \<in> binary64"
    unfolding binary64_def lit_0_70_def mem_Collect_eq
    by (rule exI [of _ 3152519739159347], rule exI [of _ 52], simp)
  show "1 + 1 / 2 ^ 52 \<in> binary64"
    unfolding binary64_def mem_Collect_eq
    by (rule exI [of _ 4503599627370497], rule exI [of _ 52], simp)
qed

text \<open>
  On the real numbers of \<open>[0, 1]\<close> the tiers are assigned on \<open>[0, 0.40)\<close>,
  on \<open>[0.40, 0.70)\<close> and on \<open>[0.70, 1]\<close>.
\<close>

lemma tier_real:
  "{x. 0 \<le> x \<and> x \<le> 1 \<and> fst (assess_severity (Finite x)) = ''Low''} = {0..<lit_0_40}"
  "{x. 0 \<le> x \<and> x \<le> 1 \<and> fst (assess_severity (Finite x)) = ''Moderate''} = {lit_0_40..<lit_0_70}"
  "{x. 0 \<le> x \<and> x \<le> 1 \<and> fst (assess_severity (Finite x)) = ''Severe''} = {lit_0_70..1}"
  using lit_order by (auto simp: tier_Finite)

text \<open>
  Among the binary64 values, the values up to \<^verbatim>\<open>1.0\<close> are the values below the
  successor of \<^verbatim>\<open>1.0\<close>.
\<close>

lemma binary64_unit_interval:
  "binary64 \<inter> {a..1} = binary64 \<inter> {a..<1 + 1 / 2 ^ 52}"
proof (intro equalityI subsetI)
  fix x assume "x \<in> binary64 \<inter> {a..1}"
  then have "x \<in> binary64" "a \<le> x" "x \<le> 1" by simp_all
  moreover have "(1::real) < 1 + 1 / 2 ^ 52" by simp
  ultimately show "x \<in> binary64 \<inter> {a..<1 + 1 / 2 ^ 52}" by simp
next
  fix x assume "x \<in> binary64 \<inter> {a..<1 + 1 / 2 ^ 52}"
  then have x: "x \<in> binary64" "a \<le> x" "x < 1 + 1 / 2 ^ 52" by simp_all
  have "x \<le> 1"
  proof (rule ccontr)
    assume "\<not> x \<le> 1"
    then have "1 + 1 / 2 ^ 52 \<le> x" using binary64_gap [OF x(1)] by simp
    then show False using x(3) by simp
  qed
  then show "x \<in> binary64 \<inter> {a..1}" using x by simp
qed

text \<open>
  Claim C2. The tiers partition the confidences of \<open>[0, 1]\<close> into three contiguous
  half-open intervals. Among the binary64 values of \<open>[0, 1]\<close>, Low is assigned
  exactly on \<open>[0, 0.40)\<close>, Moderate exactly on \<open>[0.40, 0.70)\<close> and Severe
  exactly on \<open>[0.70, s)\<close>, where \<open>s = 1 + 2\<^sup>-\<^sup>5\<^sup>2\<close> is the successor of
  \<^verbatim>\<open>1.0\<close>, so that \<^verbatim>\<open>1.0\<close> is Severe. The three intervals are non-empty,
  each one starts where the one before ends, they are pairwise disjoint, and
  together they hold exactly the binary64 values of \<open>[0, 1]\<close>: every confidence
  of \<open>[0, 1]\<close> has exactly one tier.
\<close>

theorem tier_partition:
  "{x \<in> binary64. 0 \<le> x \<and> x \<le> 1 \<and> fst (assess_severity (Finite x)) = ''Low''} =
     binary64 \<inter> {0..<lit_0_40} \<and>
   {x \<in> binary64. 0 \<le> x \<and> x \<le> 1 \<and> fst (assess_severity (Finite x)) = ''Moderate''} =
     binary64 \<inter> {lit_0_40..<lit_0_70} \<and>
   {x \<in> binary64. 0 \<le> x \<and> x \<le> 1 \<and> fst (assess_severity (Finite x)) = ''Severe''} =
     binary64 \<inter> {lit_0_70..<1 + 1 / 2 ^ 52} \<and>
   0 < lit_0_40 \<and> lit_0_40 < lit_0_70 \<and> lit_0_70 < 1 + 1 / 2 ^ 52 \<and>
   binary64 \<inter> ({0..<lit_0_40} \<union> {lit_0_40..<lit_0_70} \<union> {lit_0_70..<1 + 1 / 2 ^ 52}) =
     binary64 \<inter> {0..1} \<and>
   {0..<lit_0_40} \<inter> {lit_0_40..<lit_0_70} = {} \<and>
   {0..<lit_0_40} \<inter> {lit_0_70..<1 + 1 / 2 ^ 52} = {} \<and>
   {lit_0_40..<lit_0_70} \<inter> {lit_0_70..<1 + 1 / 2 ^ 52} = {}"
proof -
  have low: "{x \<in> binary64. 0 \<le> x \<and> x \<le> 1 \<and> fst (assess_severity (Finite x)) = ''Low''} =
      binary64 \<inter> {0..<lit_0_40}"
    using tier_real(1) by blast
  have moderate:
    "{x \<in> binary64. 0 \<le> x \<and> x \<le> 1 \<and> fst (assess_severity (Finite x)) = ''Moderate''} =
      binary64 \<inter> {lit_0_40..<lit_0_70}"
    using tier_real(2) by blast
  have "{x \<in> binary64. 0 \<le> x \<and> x \<le> 1 \<and> fst (assess_severity (Finite x)) = ''Severe''} =
      binary64 \<inter> {lit_0_70..1}"
    using tier_real(3) by blast
  then have severe:
    "{x \<in> binary64. 0 \<le> x \<and> x \<le> 1 \<and> fst (assess_severity (Finite x)) = ''Severe''} =
      binary64 \<inter> {lit_0_70..<1 + 1 / 2 ^ 52}"
    by (simp only: binary64_unit_interval)
  have ord: "lit_0_70 < 1 + 1 / 2 ^ 52"
    using lit_order(3) by simp
  have "{0..<lit_0_40} \<union> {lit_0_40..<lit_0_70} \<union> {lit_0_70..<1 + 1 / 2 ^ 52} =
      {0..<1 + 1 / 2 ^ 52}"
    using lit_order ord by auto
  then have cover:
    "binary64 \<inter> ({0..<lit_0_40} \<union> {lit_0_40..<lit_0_70} \<union> {lit_0_70..<1 + 1 / 2 ^ 52}) =
      binary64 \<inter> {0..1}"
    by (simp only: binary64_unit_interval)
  have disjoint: "{0..<lit_0_40} \<inter> {lit_0_40..<lit_0_70} = {}"
    "{0..<lit_0_40} \<inter> {lit_0_70..<1 + 1 / 2 ^ 52} = {}"
    "{lit_0_40..<lit_0_70} \<inter> {lit_0_70..<1 + 1 / 2 ^ 52} = {}"
    using lit_order by auto
  show ?thesis
    using low moderate severe cover disjoint lit_order(1,2) ord by blast
qed

subsection \<open>Recommendation lookup\<close>

text \<open>
  Claim C3. \<^verbatim>\<open>recommendation\<close> agrees with the table of nine strings for the
  labels crack, pothole, manhole and the tiers Low, Moderate, Severe; for
  pothole and Severe it is \<^verbatim>\<open>Urgent full-depth reconstruction required.\<close>
\<close>

theorem recommendation_table:
  "recommendation ''crack'' ''Low'' = ''Seal cracks to prevent water penetration.'' \<and>
   recommendation ''crack'' ''Moderate'' = ''Crack filling followed by surface overlay.'' \<and>
   recommendation ''crack'' ''Severe'' = ''Immediate resurfacing required.'' \<and>
   recommendation ''pothole'' ''Low'' = ''Temporary patch repair recommended.'' \<and>
   recommendation ''pothole'' ''Moderate'' = ''Permanent patch repair with compaction.'' \<and>
   recommendation ''pothole'' ''Severe'' = ''Urgent full-depth reconstruction required.'' \<and>
   recommendation ''manhole'' ''Low'' = ''Routine inspection advised.'' \<and>
   recommendation ''manhole'' ''Moderate'' = ''Level adjustment and reinforcement needed.'' \<and>
   recommendation ''manhole'' ''Severe'' = ''Immediate structural correction required.''"
  by (simp add: recommendation_def dict_get_def actions_def)

text \<open>
  Claim C4. When the label is none of crack, pothole, manhole, or the tier is none
  of Low, Moderate, Severe, \<^verbatim>\<open>recommendation\<close> returns
  \<^verbatim>\<open>Standard maintenance recommended.\<close> (it has no failing branch).
\<close>

theorem recommendation_default:
  "label \<notin> {''crack'', ''pothole'', ''manhole''} \<or> severity \<notin> {''Low'', ''Moderate'', ''Severe''}
   \<Longrightarrow> recommendation label severity = ''Standard maintenance recommended.''"
  by (auto simp: recommendation_def dict_get_def actions_def)

theorem recommendation_default_witness:
  "recommendation ''unknown_label'' ''Low'' = ''Standard maintenance recommended.'' \<and>
   recommendation ''pothole'' ''Critical'' = ''Standard maintenance recommended.'' \<and>
   recommendation ''POTHOLE'' ''Severe'' = ''Standard maintenance recommended.''"
proof -
  have a: "''unknown_label'' \<notin> {''crack'', ''pothole'', ''manhole''} \<or> ''Low'' \<notin> {''Low'', ''Moderate'', ''Severe''}"
    by simp
  have b: "''pothole'' \<notin> {''crack'', ''pothole'', ''manhole''} \<or> ''Critical'' \<notin> {''Low'', ''Moderate'', ''Severe''}"
    by simp
  have c: "''POTHOLE'' \<notin> {''crack'', ''pothole'', ''manhole''} \<or> ''Severe'' \<notin> {''Low'', ''Moderate'', ''Severe''}"
    by simp
  show ?thesis
    using recommendation_default [OF a] recommendation_default [OF b] recommendation_default [OF c]
    by simp
qed

subsection \<open>Reconstruction plans\<close>

text \<open>
  Claim C5. \<^verbatim>\<open>reconstruction_steps\<close> maps each tier to a fixed ordered sequence
  of steps: the text for Low is the Markdown of exactly 4 steps, the texts for
  Moderate and Severe of exactly 5 steps each, numbered 1, 2, ... in the order of
  the source.
\<close>

theorem reconstruction_steps_plans:
  "reconstruction_steps ''Low'' =
     Inr (plan_markdown ''Low''
       [''Visual inspection'', ''Cleaning debris'', ''Crack sealing / minor patching'',
        ''Periodic monitoring'']) \<and>
   reconstruction_steps ''Moderate'' =
     Inr (plan_markdown ''Moderate''
       [''Detailed site inspection'', ''Marking damaged zones'', ''Crack filling / patch repair'',
        ''Surface overlay'', ''Compaction and leveling'']) \<and>
   reconstruction_steps ''Severe'' =
     Inr (plan_markdown ''Severe''
       [''Traffic diversion and safety barricades'', ''Removal of damaged layers'',
        ''Structural base repair'', ''Full resurfacing'', ''Quality and load inspection''])"
  by (simp add: reconstruction_steps_def dict_index_def plans_def plan_markdown_def
      str_of_nat.simps digit_char_def)

text \<open>
  Claim C6. \<^verbatim>\<open>reconstruction_steps\<close> raises KeyError for every tier other than
  Low, Moderate, Severe, and it returns a text for the tier that
  \<^verbatim>\<open>assess_severity\<close> gives for any confidence.
\<close>

theorem reconstruction_steps_domain:
  "(severity \<notin> {''Low'', ''Moderate'', ''Severe''} \<longrightarrow>
      reconstruction_steps severity = Inl (KeyError severity)) \<and>
   (\<exists>steps. reconstruction_steps (fst (assess_severity c)) = Inr steps)"
  by (simp add: assess_severity_def reconstruction_steps_def dict_index_def plans_def)

theorem reconstruction_steps_domain_witness:
  "reconstruction_steps ''Critical'' = Inl (KeyError ''Critical'') \<and>
   reconstruction_steps ''low'' = Inl (KeyError ''low'') \<and>
   (\<exists>steps. reconstruction_steps (fst (assess_severity (Finite (1 / 2)))) = Inr steps)"
proof -
  have a: "''Critical'' \<notin> {''Low'', ''Moderate'', ''Severe''}" "''low'' \<notin> {''Low'', ''Moderate'', ''Severe''}"
    by simp_all
  show ?thesis
    using reconstruction_steps_domain [of "''Critical''" "Finite (1 / 2)"] a(1)
      reconstruction_steps_domain [of "''low''" "Finite (1 / 2)"] a(2)
    by blast
qed

subsection \<open>The display loop\<close>

text \<open>
  The tier of \<^verbatim>\<open>assess_severity\<close> is a key of the plans, so one iteration of
  the loop never raises: it appends one text to the issues and four calls.
\<close>

lemma assess_severity_steps:
  "assess_severity c = (severity, css, score, explanation) \<Longrightarrow>
   \<exists>steps. reconstruction_steps severity = Inr steps"
  by (auto simp: assess_severity_def reconstruction_steps_def dict_index_def plans_def
      split: if_splits)

lemma display_loop_step:
  assumes "assess_severity (box_conf box) = (severity, css, score, explanation)"
    and "reconstruction_steps severity = Inr steps"
  shows "display_loop rt i (box # boxes) issues ui =
     display_loop rt (i + 1) boxes
       (issues @ [issue_text rt (box_label box) severity explanation
                    (recommendation (box_label box) severity)])
       (ui @ [Markdown
                (damage_html rt i (box_label box) (box_conf box) css severity explanation
                   (recommendation (box_label box) severity)),
              Write ''**Severity Level**'',
              Progress score,
              Expander (expander_title i) [Markdown steps]])"
  using assms by (simp add: Let_def)

lemma rendered_block_step:
  assumes "assess_severity (box_conf box) = (severity, css, score, explanation)"
    and "reconstruction_steps severity = Inr steps"
  shows "rendered_block rt i box
     (issue_text rt (box_label box) severity explanation
        (recommendation (box_label box) severity))
     [Markdown
        (damage_html rt i (box_label box) (box_conf box) css severity explanation
           (recommendation (box_label box) severity)),
      Write ''**Severity Level**'',
      Progress score,
      Expander (expander_title i) [Markdown steps]]"
  using assms by (simp add: rendered_block_def)

lemma display_loop_general:
  "\<exists>iss us. display_loop rt i boxes issues ui = Inr (issues @ iss, ui @ us) \<and>
     length iss = length boxes \<and> length us = 4 * length boxes \<and>
     (\<forall>k<length boxes.
        rendered_block rt (i + k) (boxes ! k) (iss ! k) (take 4 (drop (4 * k) us)))"
proof (induction boxes arbitrary: i issues ui)
  case Nil
  then show ?case by simp
next
  case (Cons box boxes)
  obtain severity css score explanation where
    a: "assess_severity (box_conf box) = (severity, css, score, explanation)"
    by (cases "assess_severity (box_conf box)") auto
  then obtain steps where s: "reconstruction_steps severity = Inr steps"
    using assess_severity_steps by blast
  define x where "x = issue_text rt (box_label box) severity explanation
                    (recommendation (box_label box) severity)"
  define cs where "cs = [Markdown
                (damage_html rt i (box_label box) (box_conf box) css severity explanation
                   (recommendation (box_label box) severity)),
              Write ''**Severity Level**'',
              Progress score,
              Expander (expander_title i) [Markdown steps]]"
  have step: "display_loop rt i (box # boxes) issues ui =
      display_loop rt (i + 1) boxes (issues @ [x]) (ui @ cs)"
    unfolding x_def cs_def by (rule display_loop_step [OF a s])
  have blk: "rendered_block rt i box x cs"
    unfolding x_def cs_def by (rule rendered_block_step [OF a s])
  have len: "length cs = 4"
    by (simp add: cs_def)
  from Cons.IH [of "i + 1" "issues @ [x]" "ui @ cs"] obtain iss us where
    r: "display_loop rt (i + 1) boxes (issues @ [x]) (ui @ cs) =
          Inr ((issues @ [x]) @ iss, (ui @ cs) @ us)"
    and l1: "length iss = length boxes" and l2: "length us = 4 * length boxes"
    and b: "\<forall>k<length boxes.
        rendered_block rt (i + 1 + k) (boxes ! k) (iss ! k) (take 4 (drop (4 * k) us))"
    by blast
  have "\<forall>k<length (box # boxes).
      rendered_block rt (i + k) ((box # boxes) ! k) ((x # iss) ! k)
        (take 4 (drop (4 * k) (cs @ us)))"
  proof (intro allI impI)
    fix k assume k: "k < length (box # boxes)"
    show "rendered_block rt (i + k) ((box # boxes) ! k) ((x # iss) ! k)
        (take 4 (drop (4 * k) (cs @ us)))"
    proof (cases k)
      case 0
      then show ?thesis using blk len by simp
    next
      case (Suc j)
      then have j: "j < length boxes" using k by simp
      have "drop (4 * k) (cs @ us) = drop (4 * j) us"
        using Suc len by simp
      then show ?thesis
        using b j Suc by simp
    qed
  qed
  then show ?case
    using step r l1 l2 len
    by (intro exI [of _ "x # iss"] exI [of _ "cs @ us"]) simp
qed

text \<open>
  \<^verbatim>\<open>str(n)\<close> is the decimal numeral of \<open>n\<close>, and the only one.
\<close>

lemma decimal_digit_char: "d < 10 \<Longrightarrow> decimal_digit (digit_char d) = Some d"
proof -
  assume "d < 10"
  then have "d = 0 \<or> d = 1 \<or> d = 2 \<or> d = 3 \<or> d = 4 \<or> d = 5 \<or> d = 6 \<or> d = 7 \<or> d = 8 \<or> d = 9"
    by arith
  then show ?thesis
    by (elim disjE) (simp_all add: decimal_digit_def digit_char_def)
qed

lemma digit_char_zero: "d < 10 \<Longrightarrow> digit_char d = CHR ''0'' \<Longrightarrow> d = 0"
proof -
  assume "d < 10" and z: "digit_char d = CHR ''0''"
  then have "d = 0 \<or> d = 1 \<or> d = 2 \<or> d = 3 \<or> d = 4 \<or> d = 5 \<or> d = 6 \<or> d = 7 \<or> d = 8 \<or> d = 9"
    by arith
  then show ?thesis
    using z by (elim disjE) (simp_all add: digit_char_def)
qed

lemma read_decimal_snoc:
  "read_decimal a (s @ [c]) =
     (case read_decimal a s of
        None \<Rightarrow> None
      | Some v \<Rightarrow> (case decimal_digit c of None \<Rightarrow> None | Some d \<Rightarrow> Some (10 * v + d)))"
  by (induction s arbitrary: a) (simp_all split: option.splits)

lemma str_of_nat_not_Nil: "str_of_nat n \<noteq> []"
  by (subst str_of_nat.simps) simp

lemma read_decimal_str_of_nat: "read_decimal 0 (str_of_nat n) = Some n"
proof (induction n rule: str_of_nat.induct)
  case (1 n)
  show ?case
  proof (cases "n < 10")
    case True
    then show ?thesis
      by (subst str_of_nat.simps) (simp add: decimal_digit_char)
  next
    case False
    have "n mod 10 < 10" by simp
    then have d: "decimal_digit (digit_char (n mod 10)) = Some (n mod 10)"
      by (rule decimal_digit_char)
    have "read_decimal 0 (str_of_nat (n div 10)) = Some (n div 10)"
      using 1 False by simp
    then have "read_decimal 0 (str_of_nat (n div 10) @ [digit_char (n mod 10)]) =
        Some (10 * (n div 10) + n mod 10)"
      by (simp add: read_decimal_snoc d)
    then show ?thesis
      using False by (subst str_of_nat.simps) simp
  qed
qed

lemma hd_str_of_nat: "hd (str_of_nat n) = CHR ''0'' \<Longrightarrow> n = 0"
proof (induction n rule: str_of_nat.induct)
  case (1 n)
  show ?case
  proof (cases "n < 10")
    case True
    then have "str_of_nat n = [digit_char n]"
      by (subst str_of_nat.simps) simp
    then show ?thesis
      using 1(2) True digit_char_zero by simp
  next
    case False
    then have "str_of_nat n = str_of_nat (n div 10) @ [digit_char (n mod 10)]"
      by (subst str_of_nat.simps) simp
    then have "hd (str_of_nat n) = hd (str_of_nat (n div 10))"
      using str_of_nat_not_Nil by simp
    then have "n div 10 = 0"
      using 1 False by simp
    then show ?thesis using False by simp
  qed
qed

lemma decimal_numeral_str_of_nat: "decimal_numeral (str_of_nat n) = Some n"
proof (cases "n = 0")
  case True
  have "str_of_nat 0 = ''0''"
    by (subst str_of_nat.simps) (simp add: digit_char_def)
  then show ?thesis
    using True by (simp add: decimal_numeral_def decimal_digit_def)
next
  case False
  then have "hd (str_of_nat n) \<noteq> CHR ''0''"
    using hd_str_of_nat by blast
  then show ?thesis
    by (simp add: decimal_numeral_def str_of_nat_not_Nil read_decimal_str_of_nat)
qed

lemma decimal_digit_Some: "decimal_digit c = Some d \<Longrightarrow> d < 10 \<and> c = digit_char d"
  by (auto simp: decimal_digit_def digit_char_def split: if_splits)

lemma decimal_numeral_unique: "decimal_numeral s = Some n \<Longrightarrow> s = str_of_nat n"
proof (induction s arbitrary: n rule: rev_induct)
  case Nil
  then show ?case by (simp add: decimal_numeral_def)
next
  case (snoc c t)
  have ok: "\<not> (hd (t @ [c]) = CHR ''0'' \<and> t @ [c] \<noteq> ''0'')"
    and rd: "read_decimal 0 (t @ [c]) = Some n"
    using snoc.prems by (simp_all add: decimal_numeral_def split: if_splits)
  from rd obtain v d where v: "read_decimal 0 t = Some v"
    and d: "decimal_digit c = Some d" and n: "n = 10 * v + d"
    by (auto simp: read_decimal_snoc split: option.splits)
  have d10: "d < 10" and c: "c = digit_char d"
    using decimal_digit_Some [OF d] by simp_all
  show ?case
  proof (cases "t = []")
    case True
    then have "n = d" using v n by simp
    then have "str_of_nat n = [c]"
      using d10 c by (subst str_of_nat.simps) simp
    then show ?thesis using True by simp
  next
    case False
    then have "hd (t @ [c]) = hd t" and "t @ [c] \<noteq> ''0''"
      by simp_all
    then have h: "hd t \<noteq> CHR ''0''"
      using ok by simp
    then have "decimal_numeral t = Some v"
      using False v by (simp add: decimal_numeral_def)
    then have t: "t = str_of_nat v"
      by (rule snoc.IH)
    have "v \<noteq> 0"
    proof
      assume "v = 0"
      then have "t = ''0''"
        using t by (subst (asm) str_of_nat.simps) (simp add: digit_char_def)
      then show False using h by simp
    qed
    then have "\<not> n < 10" and "n div 10 = v" and "n mod 10 = d"
      using n d10 by simp_all
    then have "str_of_nat n = str_of_nat v @ [digit_char d]"
      by (subst str_of_nat.simps) simp
    then show ?thesis using t c by simp
  qed
qed

text \<open>
  The block rendered at position \<open>k\<close> holds \<^verbatim>\<open>Damage \<close> and \<^verbatim>\<open>str(k+1)\<close> in
  the first line of its report box and at the end of its expander's title.
\<close>

lemma rendered_block_label:
  assumes "rendered_block rt k box issue calls"
  shows \<open>\<exists>rest steps.
     calls ! 0 = Markdown
       (''\<newline>'' @
        ''            <div class="report-box">\<newline>'' @
        ''            <b>Damage '' @ str_of_nat (k + 1) @ ''</b><br>\<newline>'' @ rest) \<and>
     calls ! 3 = Expander
       ([CHR 0xF0, CHR 0x9F, CHR 0x9B, CHR 0xA0] @ '' Reconstruction Details '' @
        [CHR 0xE2, CHR 0x80, CHR 0x93] @ '' Damage '' @ str_of_nat (k + 1)) [Markdown steps]\<close>
proof -
  obtain severity css score explanation where
    a: "assess_severity (box_conf box) = (severity, css, score, explanation)"
    by (cases "assess_severity (box_conf box)") auto
  then obtain steps where s: "reconstruction_steps severity = Inr steps"
    using assess_severity_steps by blast
  have c: "calls =
      [Markdown
         (damage_html rt k (box_label box) (box_conf box) css severity explanation
            (recommendation (box_label box) severity)),
       Write ''**Severity Level**'',
       Progress score,
       Expander (expander_title k) [Markdown steps]]"
    using assms by (simp add: rendered_block_def a s)
  have h: \<open>damage_html rt k (box_label box) (box_conf box) css severity explanation
            (recommendation (box_label box) severity) =
      ''\<newline>'' @
      ''            <div class="report-box">\<newline>'' @
      ''            <b>Damage '' @ str_of_nat (k + 1) @ ''</b><br>\<newline>'' @
      (''            <b>Type:</b> '' @ str_upper rt (box_label box) @ ''<br>\<newline>'' @
       ''            <b>Confidence:</b> '' @ format_2f rt (box_conf box) @ ''<br>\<newline>'' @
       ''            <b>Severity:</b> <span class="'' @ css @ ''">'' @ severity @ ''</span><br>\<newline>'' @
       ''            <b>Condition:</b> '' @ explanation @ ''<br>\<newline>'' @
       ''            <b>Recommended Action:</b> '' @ recommendation (box_label box) severity @ ''\<newline>'' @
       ''            </div>\<newline>'' @
       ''            '')\<close>
    by (simp add: damage_html_def damage_label_def)
  have t: "expander_title k =
      [CHR 0xF0, CHR 0x9F, CHR 0x9B, CHR 0xA0] @ '' Reconstruction Details '' @
      [CHR 0xE2, CHR 0x80, CHR 0x93] @ '' Damage '' @ str_of_nat (k + 1)"
    by (simp add: expander_title_def damage_label_def)
  have "calls ! 0 = Markdown
         (damage_html rt k (box_label box) (box_conf box) css severity explanation
            (recommendation (box_label box) severity))"
    and "calls ! 3 = Expander (expander_title k) [Markdown steps]"
    unfolding c by simp_all
  then show ?thesis
    unfolding h t by blast
qed

lemma nth_block:
  assumes "length ui = 4 * n" and "k < n"
  shows "take 4 (drop (4 * k) ui) ! 0 = ui ! (4 * k)"
    and "take 4 (drop (4 * k) ui) ! 3 = ui ! (4 * k + 3)"
  using assms by simp_all

text \<open>
  Claim C9. For a list of N detections the loop appends exactly N issue texts and
  exactly N blocks of calls (4 N calls), in the order of the input: for every
  position \<open>k < N\<close> the \<open>k\<close>-th issue text and the \<open>k\<close>-th block of four calls
  are those of the \<open>k\<close>-th detection, and the block carries the 1-based label of
  its position: the report box opens with \<^verbatim>\<open><b>Damage d</b><br>\<close> and the
  expander's title ends with \<^verbatim>\<open>Damage d\<close>, where \<open>d\<close> is the decimal numeral of
  \<open>k + 1\<close>.
\<close>

theorem display_loop_blocks:
  \<open>\<exists>issues ui. display_loop rt 0 boxes [] [] = Inr (issues, ui) \<and>
     length issues = length boxes \<and> length ui = 4 * length boxes \<and>
     (\<forall>k<length boxes.
        rendered_block rt k (boxes ! k) (issues ! k) (take 4 (drop (4 * k) ui)) \<and>
        (\<exists>digits rest steps.
           decimal_numeral digits = Some (k + 1) \<and>
           ui ! (4 * k) = Markdown
             (''\<newline>'' @
              ''            <div class="report-box">\<newline>'' @
              ''            <b>Damage '' @ digits @ ''</b><br>\<newline>'' @ rest) \<and>
           ui ! (4 * k + 3) = Expander
             ([CHR 0xF0, CHR 0x9F, CHR 0x9B, CHR 0xA0] @ '' Reconstruction Details '' @
              [CHR 0xE2, CHR 0x80, CHR 0x93] @ '' Damage '' @ digits) [Markdown steps]))\<close>
proof -
  from display_loop_general [of rt 0 boxes "[]" "[]"] obtain issues ui where
    r: "display_loop rt 0 boxes [] [] = Inr (issues, ui)"
    and l1: "length issues = length boxes" and l2: "length ui = 4 * length boxes"
    and b: "\<forall>k<length boxes.
        rendered_block rt k (boxes ! k) (issues ! k) (take 4 (drop (4 * k) ui))"
    by auto
  have \<open>\<forall>k<length boxes.
        rendered_block rt k (boxes ! k) (issues ! k) (take 4 (drop (4 * k) ui)) \<and>
        (\<exists>digits rest steps.
           decimal_numeral digits = Some (k + 1) \<and>
           ui ! (4 * k) = Markdown
             (''\<newline>'' @
              ''            <div class="report-box">\<newline>'' @
              ''            <b>Damage '' @ digits @ ''</b><br>\<newline>'' @ rest) \<and>
           ui ! (4 * k + 3) = Expander
             ([CHR 0xF0, CHR 0x9F, CHR 0x9B, CHR 0xA0] @ '' Reconstruction Details '' @
              [CHR 0xE2, CHR 0x80, CHR 0x93] @ '' Damage '' @ digits) [Markdown steps])\<close>
  proof (intro allI impI conjI)
    fix k assume k: "k < length boxes"
    show blk: "rendered_block rt k (boxes ! k) (issues ! k) (take 4 (drop (4 * k) ui))"
      using b k by blast
    from rendered_block_label [OF blk] obtain rest steps where
      \<open>take 4 (drop (4 * k) ui) ! 0 = Markdown
         (''\<newline>'' @
          ''            <div class="report-box">\<newline>'' @
          ''            <b>Damage '' @ str_of_nat (k + 1) @ ''</b><br>\<newline>'' @ rest)\<close>
      and \<open>take 4 (drop (4 * k) ui) ! 3 = Expander
         ([CHR 0xF0, CHR 0x9F, CHR 0x9B, CHR 0xA0] @ '' Reconstruction Details '' @
          [CHR 0xE2, CHR 0x80, CHR 0x93] @ '' Damage '' @ str_of_nat (k + 1)) [Markdown steps]\<close>
      by blast
    then have \<open>ui ! (4 * k) = Markdown
         (''\<newline>'' @
          ''            <div class="report-box">\<newline>'' @
          ''            <b>Damage '' @ str_of_nat (k + 1) @ ''</b><br>\<newline>'' @ rest)\<close>
      and \<open>ui ! (4 * k + 3) = Expander
         ([CHR 0xF0, CHR 0x9F, CHR 0x9B, CHR 0xA0] @ '' Reconstruction Details '' @
          [CHR 0xE2, CHR 0x80, CHR 0x93] @ '' Damage '' @ str_of_nat (k + 1)) [Markdown steps]\<close>
      unfolding nth_block [OF l2 k] by blast+
    then show \<open>\<exists>digits rest steps.
           decimal_numeral digits = Some (k + 1) \<and>
           ui ! (4 * k) = Markdown
             (''\<newline>'' @
              ''            <div class="report-box">\<newline>'' @
              ''            <b>Damage '' @ digits @ ''</b><br>\<newline>'' @ rest) \<and>
           ui ! (4 * k + 3) = Expander
             ([CHR 0xF0, CHR 0x9F, CHR 0x9B, CHR 0xA0] @ '' Reconstruction Details '' @
              [CHR 0xE2, CHR 0x80, CHR 0x93] @ '' Damage '' @ digits) [Markdown steps]\<close>
      using decimal_numeral_str_of_nat [of "k + 1"] by blast
  qed
  then show ?thesis
    using r l1 l2 by blast
qed

text \<open>
  The example: a pothole with confidence 0.875 and a crack with confidence 0.25
  (both are binary64 values), under the runtime of the examples.
\<close>

lemma assess_severity_example:
  "assess_severity (Finite (7 / 8)) =
     (''Severe'', ''severe'', Finite lit_0_9, ''Critical damage posing serious safety risks.'')"
  "assess_severity (Finite (1 / 4)) =
     (''Low'', ''low'', Finite lit_0_3, ''Minor surface damage with no immediate safety risk.'')"
  by (simp_all add: assess_severity_def lit_0_40_def lit_0_70_def)

lemma ascii_upper_example:
  "ascii_upper ''pothole'' = ''POTHOLE''" "ascii_upper ''crack'' = ''CRACK''"
  by (simp_all add: ascii_upper_def)

lemma recommendation_example:
  "recommendation ''pothole'' ''Severe'' = ''Urgent full-depth reconstruction required.''"
  "recommendation ''crack'' ''Low'' = ''Seal cracks to prevent water penetration.''"
  by (simp_all add: recommendation_def dict_get_def actions_def)

lemma damage_label_example:
  "damage_label 0 = ''Damage 1''" "damage_label 1 = ''Damage 2''"
  "damage_label (Suc 0) = ''Damage 2''"
  by (simp_all add: damage_label_def str_of_nat.simps digit_char_def)

lemma fixed2_example: "fixed2 (Finite (7 / 8)) = ''0.88''" "fixed2 (Finite (1 / 4)) = ''0.25''"
  by (simp_all add: fixed2_def round_half_even_def str_of_nat.simps digit_char_def)

lemma reconstruction_steps_example:
  "\<exists>steps. reconstruction_steps ''Severe'' = Inr steps"
  "\<exists>steps. reconstruction_steps ''Low'' = Inr steps"
  by (simp_all add: reconstruction_steps_def dict_index_def plans_def)

theorem display_loop_blocks_witness:
  \<open>\<exists>issues ui.
     display_loop example_runtime 0 [\<lparr>box_label = ''pothole'', box_conf = Finite (7 / 8)\<rparr>, \<lparr>box_label = ''crack'', box_conf = Finite (1 / 4)\<rparr>] [] [] = Inr (issues, ui) \<and>
     length issues = 2 \<and> length ui = 8 \<and>
     issues ! 0 =
       ''POTHOLE | Severity: Severe\<newline>'' @
       ''Condition: Critical damage posing serious safety risks.\<newline>'' @
       ''Action: Urgent full-depth reconstruction required.'' \<and>
     issues ! 1 =
       ''CRACK | Severity: Low\<newline>'' @
       ''Condition: Minor surface damage with no immediate safety risk.\<newline>'' @
       ''Action: Seal cracks to prevent water penetration.'' \<and>
     ui ! 0 = Markdown
       (''\<newline>'' @
       ''            <div class="report-box">\<newline>'' @
       ''            <b>Damage 1</b><br>\<newline>'' @
       ''            <b>Type:</b> POTHOLE<br>\<newline>'' @
       ''            <b>Confidence:</b> 0.88<br>\<newline>'' @
       ''            <b>Severity:</b> <span class="severe">Severe</span><br>\<newline>'' @
       ''            <b>Condition:</b> Critical damage posing serious safety risks.<br>\<newline>'' @
       ''            <b>Recommended Action:</b> Urgent full-depth reconstruction required.\<newline>'' @
       ''            </div>\<newline>'' @
       ''            '') \<and>
     ui ! 4 = Markdown
       (''\<newline>'' @
       ''            <div class="report-box">\<newline>'' @
       ''            <b>Damage 2</b><br>\<newline>'' @
       ''            <b>Type:</b> CRACK<br>\<newline>'' @
       ''            <b>Confidence:</b> 0.25<br>\<newline>'' @
       ''            <b>Severity:</b> <span class="low">Low</span><br>\<newline>'' @
       ''            <b>Condition:</b> Minor surface damage with no immediate safety risk.<br>\<newline>'' @
       ''            <b>Recommended Action:</b> Seal cracks to prevent water penetration.\<newline>'' @
       ''            </div>\<newline>'' @
       ''            '') \<and>
     (\<exists>steps. ui ! 3 =
        Expander ([CHR 0xF0, CHR 0x9F, CHR 0x9B, CHR 0xA0] @ '' Reconstruction Details '' @
                  [CHR 0xE2, CHR 0x80, CHR 0x93] @ '' Damage 1'') [Markdown steps]) \<and>
     (\<exists>steps. ui ! 7 =
        Expander ([CHR 0xF0, CHR 0x9F, CHR 0x9B, CHR 0xA0] @ '' Reconstruction Details '' @
                  [CHR 0xE2, CHR 0x80, CHR 0x93] @ '' Damage 2'') [Markdown steps])\<close>
proof -
  obtain issues ui where
    r: "display_loop example_runtime 0 [\<lparr>box_label = ''pothole'', box_conf = Finite (7 / 8)\<rparr>, \<lparr>box_label = ''crack'', box_conf = Finite (1 / 4)\<rparr>] [] [] = Inr (issues, ui)"
    and l1: "length issues = 2" and l2: "length ui = 8"
    and b: "\<forall>k<2. rendered_block example_runtime k ([\<lparr>box_label = ''pothole'', box_conf = Finite (7 / 8)\<rparr>, \<lparr>box_label = ''crack'', box_conf = Finite (1 / 4)\<rparr>] ! k) (issues ! k)
              (take 4 (drop (4 * k) ui))"
    using display_loop_blocks [of example_runtime "[\<lparr>box_label = ''pothole'', box_conf = Finite (7 / 8)\<rparr>, \<lparr>box_label = ''crack'', box_conf = Finite (1 / 4)\<rparr>]"] by auto
  have b0: "rendered_block example_runtime 0 (\<lparr>box_label = ''pothole'', box_conf = Finite (7 / 8)\<rparr>) (issues ! 0) (take 4 ui)"
    using b [rule_format, of 0] by simp
  have b1: "rendered_block example_runtime 1 (\<lparr>box_label = ''crack'', box_conf = Finite (1 / 4)\<rparr>) (issues ! 1) (take 4 (drop 4 ui))"
    using b [rule_format, of 1] by simp
  obtain steps0 where
    i0: "issues ! 0 = issue_text example_runtime ''pothole'' ''Severe''
           ''Critical damage posing serious safety risks.''
           ''Urgent full-depth reconstruction required.''"
    and c0: "take 4 ui =
      [Markdown (damage_html example_runtime 0 ''pothole'' (Finite (7 / 8)) ''severe'' ''Severe''
           ''Critical damage posing serious safety risks.''
           ''Urgent full-depth reconstruction required.''),
       Write ''**Severity Level**'', Progress (Finite lit_0_9),
       Expander (expander_title 0) [Markdown steps0]]"
    using b0 reconstruction_steps_example(1)
    by (auto simp: rendered_block_def assess_severity_example recommendation_example)
  obtain steps1 where
    i1: "issues ! 1 = issue_text example_runtime ''crack'' ''Low''
           ''Minor surface damage with no immediate safety risk.''
           ''Seal cracks to prevent water penetration.''"
    and c1: "take 4 (drop 4 ui) =
      [Markdown (damage_html example_runtime 1 ''crack'' (Finite (1 / 4)) ''low'' ''Low''
           ''Minor surface damage with no immediate safety risk.''
           ''Seal cracks to prevent water penetration.''),
       Write ''**Severity Level**'', Progress (Finite lit_0_3),
       Expander (expander_title 1) [Markdown steps1]]"
    using b1 reconstruction_steps_example(2)
    by (auto simp: rendered_block_def assess_severity_example recommendation_example)
  have n0: "ui ! 0 = take 4 ui ! 0" "ui ! 3 = take 4 ui ! 3"
    by simp_all
  have n1: "ui ! 4 = take 4 (drop 4 ui) ! 0" "ui ! 7 = take 4 (drop 4 ui) ! 3"
    using l2 by simp_all
  have u0: "ui ! 0 = Markdown (damage_html example_runtime 0 ''pothole'' (Finite (7 / 8))
           ''severe'' ''Severe'' ''Critical damage posing serious safety risks.''
           ''Urgent full-depth reconstruction required.'')"
    and u3: "ui ! 3 = Expander (expander_title 0) [Markdown steps0]"
    unfolding n0 c0 by simp_all
  have u4: "ui ! 4 = Markdown (damage_html example_runtime 1 ''crack'' (Finite (1 / 4))
           ''low'' ''Low'' ''Minor surface damage with no immediate safety risk.''
           ''Seal cracks to prevent water penetration.'')"
    and u7: "ui ! 7 = Expander (expander_title 1) [Markdown steps1]"
    unfolding n1 c1 by simp_all
  have e0: \<open>damage_html example_runtime 0 ''pothole'' (Finite (7 / 8))
           ''severe'' ''Severe'' ''Critical damage posing serious safety risks.''
           ''Urgent full-depth reconstruction required.'' =
       ''\<newline>'' @
       ''            <div class="report-box">\<newline>'' @
       ''            <b>Damage 1</b><br>\<newline>'' @
       ''            <b>Type:</b> POTHOLE<br>\<newline>'' @
       ''            <b>Confidence:</b> 0.88<br>\<newline>'' @
       ''            <b>Severity:</b> <span class="severe">Severe</span><br>\<newline>'' @
       ''            <b>Condition:</b> Critical damage posing serious safety risks.<br>\<newline>'' @
       ''            <b>Recommended Action:</b> Urgent full-depth reconstruction required.\<newline>'' @
       ''            </div>\<newline>'' @
       ''            ''\<close>
    by (simp add: damage_html_def damage_label_example example_runtime_def ascii_upper_example
        fixed2_example)
  have e1: \<open>damage_html example_runtime 1 ''crack'' (Finite (1 / 4))
           ''low'' ''Low'' ''Minor surface damage with no immediate safety risk.''
           ''Seal cracks to prevent water penetration.'' =
       ''\<newline>'' @
       ''            <div class="report-box">\<newline>'' @
       ''            <b>Damage 2</b><br>\<newline>'' @
       ''            <b>Type:</b> CRACK<br>\<newline>'' @
       ''            <b>Confidence:</b> 0.25<br>\<newline>'' @
       ''            <b>Severity:</b> <span class="low">Low</span><br>\<newline>'' @
       ''            <b>Condition:</b> Minor surface damage with no immediate safety risk.<br>\<newline>'' @
       ''            <b>Recommended Action:</b> Seal cracks to prevent water penetration.\<newline>'' @
       ''            </div>\<newline>'' @
       ''            ''\<close>
    by (simp add: damage_html_def damage_label_example example_runtime_def ascii_upper_example
        fixed2_example)
  have j0: "issues ! 0 =
       ''POTHOLE | Severity: Severe\<newline>'' @
       ''Condition: Critical damage posing serious safety risks.\<newline>'' @
       ''Action: Urgent full-depth reconstruction required.''"
    unfolding i0 by (simp add: issue_text_def example_runtime_def ascii_upper_example)
  have j1: "issues ! 1 =
       ''CRACK | Severity: Low\<newline>'' @
       ''Condition: Minor surface damage with no immediate safety risk.\<newline>'' @
       ''Action: Seal cracks to prevent water penetration.''"
    unfolding i1 by (simp add: issue_text_def example_runtime_def ascii_upper_example)
  have t0: "\<exists>steps. ui ! 3 =
        Expander ([CHR 0xF0, CHR 0x9F, CHR 0x9B, CHR 0xA0] @ '' Reconstruction Details '' @
                  [CHR 0xE2, CHR 0x80, CHR 0x93] @ '' Damage 1'') [Markdown steps]"
    unfolding u3 by (simp add: expander_title_def damage_label_example)
  have t1: "\<exists>steps. ui ! 7 =
        Expander ([CHR 0xF0, CHR 0x9F, CHR 0x9B, CHR 0xA0] @ '' Reconstruction Details '' @
                  [CHR 0xE2, CHR 0x80, CHR 0x93] @ '' Damage 2'') [Markdown steps]"
    unfolding u7 by (simp add: expander_title_def damage_label_example)
  show ?thesis
    using r l1 l2 j0 j1 u0 [unfolded e0] u4 [unfolded e1] t0 t1 by blast
qed

subsection \<open>The report\<close>

text \<open>The issues the loop collects are the issue texts of the boxes, in order.\<close>

lemma display_loop_issues:
  "\<exists>us. display_loop rt i boxes issues ui =
     Inr (issues @
          map (\<lambda>box. case assess_severity (box_conf box) of
                 (severity, css, score, explanation) \<Rightarrow>
                   issue_text rt (box_label box) severity explanation
                     (recommendation (box_label box) severity)) boxes,
          ui @ us)"
proof (induction boxes arbitrary: i issues ui)
  case Nil
  then show ?case by simp
next
  case (Cons box boxes)
  define f where "f = (\<lambda>box :: detection. case assess_severity (box_conf box) of
                 (severity, css, score, explanation) \<Rightarrow>
                   issue_text rt (box_label box) severity explanation
                     (recommendation (box_label box) severity))"
  obtain severity css score explanation where
    a: "assess_severity (box_conf box) = (severity, css, score, explanation)"
    by (cases "assess_severity (box_conf box)") auto
  then obtain steps where s: "reconstruction_steps severity = Inr steps"
    using assess_severity_steps by blast
  define x where "x = issue_text rt (box_label box) severity explanation
                    (recommendation (box_label box) severity)"
  define cs where "cs = [Markdown
                (damage_html rt i (box_label box) (box_conf box) css severity explanation
                   (recommendation (box_label box) severity)),
              Write ''**Severity Level**'',
              Progress score,
              Expander (expander_title i) [Markdown steps]]"
  have step: "display_loop rt i (box # boxes) issues ui =
      display_loop rt (i + 1) boxes (issues @ [x]) (ui @ cs)"
    unfolding x_def cs_def by (rule display_loop_step [OF a s])
  have fx: "f box = x"
    by (simp add: f_def x_def a)
  from Cons.IH [of "i + 1" "issues @ [x]" "ui @ cs"] obtain us where
    r: "display_loop rt (i + 1) boxes (issues @ [x]) (ui @ cs) =
          Inr ((issues @ [x]) @ map f boxes, (ui @ cs) @ us)"
    unfolding f_def by blast
  have "display_loop rt i (box # boxes) issues ui =
      Inr (issues @ map f (box # boxes), ui @ (cs @ us))"
    unfolding step r by (simp add: fx)
  then show ?case
    unfolding f_def by blast
qed

lemma display_results_report:
  "\<exists>ui. display_results rt (Some boxes) =
     Inr (ui,
       report_text rt
         (map (\<lambda>box. case assess_severity (box_conf box) of
                 (severity, css, score, explanation) \<Rightarrow>
                   issue_text rt (box_label box) severity explanation
                     (recommendation (box_label box) severity)) boxes))"
proof (cases "boxes = []")
  case True
  then show ?thesis
    by (simp add: display_results_def)
next
  case False
  obtain us where "display_loop rt 0 boxes [] [] =
     Inr (map (\<lambda>box. case assess_severity (box_conf box) of
                 (severity, css, score, explanation) \<Rightarrow>
                   issue_text rt (box_label box) severity explanation
                     (recommendation (box_label box) severity)) boxes, us)"
    using display_loop_issues [of rt 0 boxes "[]" "[]"] by auto
  then show ?thesis
    using False by (simp add: display_results_def del: display_loop.simps)
qed

text \<open>
  Claim C7, as stated, fails: the report for one detected pothole is the text of the
  specification preceded by a newline (the f-string starts on the line after its
  opening quotes), so it is not that text byte for byte.
\<close>

theorem report_text_leading_newline:
  "map_sum (\<lambda>e. e) snd (display_results example_runtime (Some [\<lparr>box_label = ''pothole'', box_conf = Finite (7 / 8)\<rparr>])) =
     Inr (''\<newline>'' @
          ''ROAD CONDITION ANALYSIS REPORT\<newline>'' @
          ''------------------------------\<newline>'' @
          ''Date & Time: 2024-05-01 10:30:00.123456\<newline>'' @
          ''\<newline>'' @
          ''Detected Issues:\<newline>'' @
          ''----------------\<newline>'' @
          ''POTHOLE | Severity: Severe\<newline>'' @
          ''Condition: Critical damage posing serious safety risks.\<newline>'' @
          ''Action: Urgent full-depth reconstruction required.'') \<and>
   map_sum (\<lambda>e. e) snd (display_results example_runtime (Some [\<lparr>box_label = ''pothole'', box_conf = Finite (7 / 8)\<rparr>])) \<noteq>
     Inr (''ROAD CONDITION ANALYSIS REPORT\<newline>'' @
          ''------------------------------\<newline>'' @
          ''Date & Time: 2024-05-01 10:30:00.123456\<newline>'' @
          ''\<newline>'' @
          ''Detected Issues:\<newline>'' @
          ''----------------\<newline>'' @
          ''POTHOLE | Severity: Severe\<newline>'' @
          ''Condition: Critical damage posing serious safety risks.\<newline>'' @
          ''Action: Urgent full-depth reconstruction required.'')"
proof -
  obtain ui where "display_results example_runtime (Some [\<lparr>box_label = ''pothole'', box_conf = Finite (7 / 8)\<rparr>]) =
     Inr (ui, report_text example_runtime
       [issue_text example_runtime ''pothole'' ''Severe''
          ''Critical damage posing serious safety risks.''
          ''Urgent full-depth reconstruction required.''])"
    using display_results_report [of example_runtime "[\<lparr>box_label = ''pothole'', box_conf = Finite (7 / 8)\<rparr>]"]
    by (auto simp: assess_severity_example recommendation_example)
  then have "map_sum (\<lambda>e. e) snd (display_results example_runtime (Some [\<lparr>box_label = ''pothole'', box_conf = Finite (7 / 8)\<rparr>])) =
     Inr (report_text example_runtime
       [issue_text example_runtime ''pothole'' ''Severe''
          ''Critical damage posing serious safety risks.''
          ''Urgent full-depth reconstruction required.''])"
    by simp
  then show ?thesis
    by (simp add: report_text_def issue_text_def example_runtime_def ascii_upper_example)
qed

text \<open>
  Claim C7, amended. For every list of detections the run stores a report that is
  exactly: a newline, the line \<^verbatim>\<open>ROAD CONDITION ANALYSIS REPORT\<close>, a rule of 30
  dashes, the line \<^verbatim>\<open>Date & Time: \<close> with the timestamp, an empty line, the line
  \<^verbatim>\<open>Detected Issues:\<close>, a rule of 16 dashes, and then the blocks of the
  detections in order, joined by an empty line, each block being the upper-cased
  label, \<^verbatim>\<open> | Severity: \<close> and the tier, the line \<^verbatim>\<open>Condition: \<close> with the
  explanation and the line \<^verbatim>\<open>Action: \<close> with the recommendation.
\<close>

theorem report_text_structure:
  "\<exists>ui. display_results rt (Some boxes) =
     Inr (ui,
       ''\<newline>'' @
       ''ROAD CONDITION ANALYSIS REPORT\<newline>'' @
       ''------------------------------\<newline>'' @
       ''Date & Time: '' @ datetime_now rt @ ''\<newline>'' @
       ''\<newline>'' @
       ''Detected Issues:\<newline>'' @
       ''----------------\<newline>'' @
       str_join ''\<newline>\<newline>''
         (map (\<lambda>box. case assess_severity (box_conf box) of
                 (severity, css, score, explanation) \<Rightarrow>
                   str_upper rt (box_label box) @ '' | Severity: '' @ severity @ ''\<newline>'' @
                   ''Condition: '' @ explanation @ ''\<newline>'' @
                   ''Action: '' @ recommendation (box_label box) severity) boxes))"
proof -
  define f where "f = (\<lambda>box :: detection. case assess_severity (box_conf box) of
                 (severity, css, score, explanation) \<Rightarrow>
                   issue_text rt (box_label box) severity explanation
                     (recommendation (box_label box) severity))"
  define g where "g = (\<lambda>box :: detection. case assess_severity (box_conf box) of
                 (severity, css, score, explanation) \<Rightarrow>
                   str_upper rt (box_label box) @ '' | Severity: '' @ severity @ ''\<newline>'' @
                   ''Condition: '' @ explanation @ ''\<newline>'' @
                   ''Action: '' @ recommendation (box_label box) severity)"
  have fg: "f = g"
    unfolding f_def g_def by (simp add: issue_text_def)
  have "\<exists>ui. display_results rt (Some boxes) = Inr (ui, report_text rt (map g boxes))"
  proof (cases "boxes = []")
    case True
    then show ?thesis
      by (simp add: display_results_def)
  next
    case False
    obtain us where "display_loop rt 0 boxes [] [] = Inr (map f boxes, us)"
      using display_loop_issues [of rt 0 boxes "[]" "[]"] unfolding f_def by auto
    then show ?thesis
      using False by (simp add: display_results_def fg del: display_loop.simps)
  qed
  then show ?thesis
    unfolding g_def report_text_def by simp
qed

text \<open>
  Claim C8. For the empty list of detections (and for no list at all) no block is
  rendered: the only call is the success message, the joined text of the issues is
  empty, and the report is the header alone.
\<close>

theorem empty_report:
  "display_results rt (Some []) =
     Inr ([Success ([CHR 0xE2, CHR 0x9C, CHR 0x85] @ '' No road damage detected.'')],
          report_text rt []) \<and>
   display_results rt None = display_results rt (Some []) \<and>
   str_join ''\<newline>\<newline>'' [] = [] \<and>
   report_text rt [] =
     ''\<newline>'' @
     ''ROAD CONDITION ANALYSIS REPORT\<newline>'' @
     ''------------------------------\<newline>'' @
     ''Date & Time: '' @ datetime_now rt @ ''\<newline>'' @
     ''\<newline>'' @
     ''Detected Issues:\<newline>'' @
     ''----------------\<newline>''"
  by (simp add: display_results_def report_text_def)

end
